theory Spec2Isabelle
  imports Main
begin

section \<open>JavaScript values\<close>

text \<open>
  The domain error base class takes a payload of TypeScript type \<open>unknown\<close>, and the
  database provider passes rows and errors of type \<open>unknown\<close> around. The fragment of
  JavaScript values modelled here: \<open>undefined\<close>, \<open>null\<close>, booleans, BigInts, strings
  (lists of code units below 256), arrays, plain objects (their own enumerable data
  properties in enumeration order, prototype \<open>Object.prototype\<close>) and \<open>Error\<close> instances
  (their \<open>name\<close> and \<open>message\<close>, no enumerable property of their own). Numbers are left
  out (their rendering is floating-point formatting), and so are functions and symbols.
\<close>

datatype jsval =
    JUndefined
  | JNull
  | JBool bool
  | JBigInt int
  | JStr string
  | JArr "jsval list"
  | JObj "(string \<times> jsval) list"
  | JError string string

text \<open>What a \<open>throw\<close> carries: a \<open>TypeError\<close> raised by a built-in, or any other value.\<close>

datatype thrown = TypeError | Thrown jsval

fun truthy :: "jsval \<Rightarrow> bool" where
  "truthy JUndefined = False"
| "truthy JNull = False"
| "truthy (JBool b) = b"
| "truthy (JBigInt n) = (n \<noteq> 0)"
| "truthy (JStr s) = (s \<noteq> [])"
| "truthy (JArr xs) = True"
| "truthy (JObj ps) = True"
| "truthy (JError n m) = True"

fun typeof :: "jsval \<Rightarrow> string" where
  "typeof JUndefined = ''undefined''"
| "typeof JNull = ''object''"
| "typeof (JBool b) = ''boolean''"
| "typeof (JBigInt n) = ''bigint''"
| "typeof (JStr s) = ''string''"
| "typeof (JArr xs) = ''object''"
| "typeof (JObj ps) = ''object''"
| "typeof (JError n m) = ''object''"

subsection \<open>\<open>BigInt.prototype.toString\<close>\<close>

text \<open>A BigInt renders as its decimal digits, after a minus sign when it is negative.\<close>

definition digit_char :: "nat \<Rightarrow> char" where
  "digit_char d = char_of (48 + d)"

fun decimal_digits :: "nat \<Rightarrow> string" where
  "decimal_digits n =
     (if 10 \<le> n then decimal_digits (n div 10) @ [digit_char (n mod 10)] else [digit_char n])"

declare decimal_digits.simps [simp del]

definition BigInt_toString :: "int \<Rightarrow> string" where
  "BigInt_toString n =
     (if 0 \<le> n then decimal_digits (nat n) else CHR ''-'' # decimal_digits (nat (- n)))"

subsection \<open>The method call \<open>data.toString()\<close>\<close>

text \<open>
  \<open>undefined\<close> and \<open>null\<close> have no properties: the call throws. Primitives use the
  method of their wrapper prototype. An array joins the renderings of its elements with
  commas, \<open>undefined\<close> and \<open>null\<close> elements rendering as the empty string. A plain object
  inherits \<open>Object.prototype.toString\<close> unless it has a property \<open>toString\<close> of its own,
  which in this fragment is never callable, so that the call throws. An \<open>Error\<close> instance
  uses \<open>Error.prototype.toString\<close>.
\<close>

definition Object_prototype_toString :: string where
  "Object_prototype_toString = ''[object Object]''"

definition Error_prototype_toString :: "string \<Rightarrow> string \<Rightarrow> string" where
  "Error_prototype_toString name msg =
     (if name = [] then msg else if msg = [] then name else name @ '': '' @ msg)"

fun toString :: "jsval \<Rightarrow> thrown + string"
  and Array_join :: "jsval list \<Rightarrow> thrown + string" where
  "toString JUndefined = Inl TypeError"
| "toString JNull = Inl TypeError"
| "toString (JBool b) = Inr (if b then ''true'' else ''false'')"
| "toString (JBigInt n) = Inr (BigInt_toString n)"
| "toString (JStr s) = Inr s"
| "toString (JArr xs) = Array_join xs"
| "toString (JObj ps) =
     (if ''toString'' \<in> set (map fst ps) then Inl TypeError else Inr Object_prototype_toString)"
| "toString (JError n m) = Inr (Error_prototype_toString n m)"
| "Array_join [] = Inr []"
| "Array_join (x # xs) =
     (case (case x of JUndefined \<Rightarrow> Inr [] | JNull \<Rightarrow> Inr [] | _ \<Rightarrow> toString x) of
        Inl t \<Rightarrow> Inl t
      | Inr s \<Rightarrow>
          (case xs of
             [] \<Rightarrow> Inr s
           | _ # _ \<Rightarrow> (case Array_join xs of Inl t \<Rightarrow> Inl t | Inr r \<Rightarrow> Inr (s @ '','' @ r))))"

subsection \<open>\<open>JSON.stringify\<close>\<close>

definition hex_digit :: "nat \<Rightarrow> char" where
  "hex_digit d = (if d < 10 then char_of (48 + d) else char_of (87 + d))"

text \<open>One code unit inside a JSON string literal (QuoteJSONString of ECMA-262).\<close>

definition JSON_escape :: "char \<Rightarrow> string" where
  "JSON_escape c =
     (if c = CHR 0x08 then [CHR 0x5C, CHR ''b'']
      else if c = CHR 0x09 then [CHR 0x5C, CHR ''t'']
      else if c = CHR 0x0A then [CHR 0x5C, CHR ''n'']
      else if c = CHR 0x0C then [CHR 0x5C, CHR ''f'']
      else if c = CHR 0x0D then [CHR 0x5C, CHR ''r'']
      else if c = CHR 0x22 then [CHR 0x5C, CHR 0x22]
      else if c = CHR 0x5C then [CHR 0x5C, CHR 0x5C]
      else if (of_char c :: nat) < 32
        then [CHR 0x5C, CHR ''u'', CHR ''0'', CHR ''0'',
              hex_digit (of_char c div 16), hex_digit (of_char c mod 16)]
      else [c])"

definition QuoteJSONString :: "string \<Rightarrow> string" where
  "QuoteJSONString s = [CHR 0x22] @ concat (map JSON_escape s) @ [CHR 0x22]"

fun intercalate :: "string \<Rightarrow> string list \<Rightarrow> string" where
  "intercalate sep [] = []"
| "intercalate sep [x] = x"
| "intercalate sep (x # y # ys) = x @ sep @ intercalate sep (y # ys)"

text \<open>
  The closing step of SerializeJSONObject and SerializeJSONArray: \<open>stepback\<close> is the
  indentation of the enclosing level, \<open>gap\<close> the indentation unit.
\<close>

definition JSON_enclose :: "string \<Rightarrow> string \<Rightarrow> string \<Rightarrow> string \<Rightarrow> string list \<Rightarrow> string" where
  "JSON_enclose opening closing gap stepback partial =
     (if partial = [] then opening @ closing
      else if gap = [] then opening @ intercalate '','' partial @ closing
      else opening @ [CHR 0x0A] @ (stepback @ gap)
           @ intercalate ('','' @ [CHR 0x0A] @ (stepback @ gap)) partial
           @ [CHR 0x0A] @ stepback @ closing)"

text \<open>
  SerializeJSONProperty: \<open>None\<close> is the result \<open>undefined\<close>. A BigInt throws. An
  \<open>undefined\<close> array element is written \<open>null\<close>, an \<open>undefined\<close> property is left out.
\<close>

fun SerializeJSONProperty :: "string \<Rightarrow> string \<Rightarrow> jsval \<Rightarrow> thrown + string option"
  and SerializeJSONArray :: "string \<Rightarrow> string \<Rightarrow> jsval list \<Rightarrow> thrown + string list"
  and SerializeJSONObject :: "string \<Rightarrow> string \<Rightarrow> (string \<times> jsval) list \<Rightarrow> thrown + string list"
  where
  "SerializeJSONProperty gap indent JUndefined = Inr None"
| "SerializeJSONProperty gap indent JNull = Inr (Some ''null'')"
| "SerializeJSONProperty gap indent (JBool b) = Inr (Some (if b then ''true'' else ''false''))"
| "SerializeJSONProperty gap indent (JBigInt n) = Inl TypeError"
| "SerializeJSONProperty gap indent (JStr s) = Inr (Some (QuoteJSONString s))"
| "SerializeJSONProperty gap indent (JArr xs) =
     (case SerializeJSONArray gap (indent @ gap) xs of
        Inl t \<Rightarrow> Inl t
      | Inr partial \<Rightarrow> Inr (Some (JSON_enclose ''['' '']'' gap indent partial)))"
| "SerializeJSONProperty gap indent (JObj ps) =
     (case SerializeJSONObject gap (indent @ gap) ps of
        Inl t \<Rightarrow> Inl t
      | Inr partial \<Rightarrow> Inr (Some (JSON_enclose ''{'' ''}'' gap indent partial)))"
| "SerializeJSONProperty gap indent (JError n m) = Inr (Some ''{}'')"
| "SerializeJSONArray gap indent [] = Inr []"
| "SerializeJSONArray gap indent (x # xs) =
     (case SerializeJSONProperty gap indent x of
        Inl t \<Rightarrow> Inl t
      | Inr r \<Rightarrow>
          (case SerializeJSONArray gap indent xs of
             Inl t \<Rightarrow> Inl t
           | Inr rs \<Rightarrow> Inr ((case r of None \<Rightarrow> ''null'' | Some s \<Rightarrow> s) # rs)))"
| "SerializeJSONObject gap indent [] = Inr []"
| "SerializeJSONObject gap indent ((k, v) # ps) =
     (case SerializeJSONProperty gap indent v of
        Inl t \<Rightarrow> Inl t
      | Inr r \<Rightarrow>
          (case SerializeJSONObject gap indent ps of
             Inl t \<Rightarrow> Inl t
           | Inr rs \<Rightarrow>
               Inr (case r of
                      None \<Rightarrow> rs
                    | Some s \<Rightarrow>
                        (QuoteJSONString k @ '':'' @ (if gap = [] then [] else '' '') @ s) # rs)))"

text \<open>
  \<open>JSON.stringify(value, null, space)\<close> for a numeric \<open>space\<close>: the indentation unit is
  that many spaces, ten at most; \<open>JSON.stringify(value)\<close> is the case \<open>space = 0\<close>.
\<close>

definition JSON_stringify :: "jsval \<Rightarrow> nat \<Rightarrow> thrown + string option" where
  "JSON_stringify v space = SerializeJSONProperty (replicate (min 10 space) CHR '' '') [] v"

section \<open>Core domain\<close>

subsection \<open>The domain error base class\<close>

text \<open>
  \<open>safeStringify\<close> of \<open>DomainError\<close>. The rendering \<open>util.inspect\<close> of Node.js is a
  parameter. \<open>None\<close> is the result \<open>undefined\<close>, which \<open>JSON.stringify\<close> returns for an
  \<open>undefined\<close> payload; an exception of \<open>data.toString()\<close> is not caught and leaves
  the constructor.
\<close>

definition safeStringify :: "(jsval \<Rightarrow> string) \<Rightarrow> jsval \<Rightarrow> thrown + string option" where
  "safeStringify inspect data =
     (let dump = (case JSON_stringify data 2 of
                    Inl t \<Rightarrow> Some (inspect data)
                  | Inr r \<Rightarrow> r)
      in if truthy data \<and> typeof data = ''object''
         then (case toString data of
                 Inl t \<Rightarrow> Inl t
               | Inr nativeStringified \<Rightarrow>
                   if nativeStringified \<noteq> Object_prototype_toString
                   then Inr (Some nativeStringified)
                   else Inr dump)
         else Inr dump)"

record DomainError =
  message :: "string option"

definition DomainError_new :: "(jsval \<Rightarrow> string) \<Rightarrow> jsval \<Rightarrow> thrown + DomainError" where
  "DomainError_new inspect data =
     (case safeStringify inspect data of
        Inl t \<Rightarrow> Inl t
      | Inr m \<Rightarrow> Inr \<lparr>message = m\<rparr>)"



text \<open>
  \<open>util.inspect\<close> on a BigInt writes its digits and the letter n; the closed examples
  below reach \<open>util.inspect\<close> at BigInts only.
\<close>

definition inspect_BigInt :: "jsval \<Rightarrow> string" where
  "inspect_BigInt v = (case v of JBigInt n \<Rightarrow> BigInt_toString n @ ''n'' | _ \<Rightarrow> [])"

subsection \<open>Newtypes, their isomorphisms and codecs\<close>

text \<open>
  A newtype is its carrier at run time; the wrapper types keep the distinction that
  TypeScript makes at compile time. \<open>UUID\<close> is a branded string.
\<close>

datatype Email = Email string
datatype UserId = UserId string
datatype AccountId = AccountId string

definition isoEmail_wrap :: "string \<Rightarrow> Email" where
  "isoEmail_wrap s = Email s"

fun isoEmail_unwrap :: "Email \<Rightarrow> string" where
  "isoEmail_unwrap (Email s) = s"

definition isoUserId_wrap :: "string \<Rightarrow> UserId" where
  "isoUserId_wrap s = UserId s"

fun isoUserId_unwrap :: "UserId \<Rightarrow> string" where
  "isoUserId_unwrap (UserId s) = s"

definition isoAccountId_wrap :: "string \<Rightarrow> AccountId" where
  "isoAccountId_wrap s = AccountId s"

text \<open>
  The io-ts codec \<open>t.string\<close> and \<open>fromNewtype\<close> of io-ts-types: \<open>decode\<close> validates
  under the root context, whose entry names the codec.
\<close>

record ContextEntry =
  key :: string
  type_name :: string
  actual :: jsval

text \<open>The fields \<open>value\<close> and \<open>context\<close> of a validation error.\<close>

record ValidationError =
  error_value :: jsval
  error_context :: "ContextEntry list"

definition t_string_validate :: "jsval \<Rightarrow> ContextEntry list \<Rightarrow> ValidationError list + string" where
  "t_string_validate u c =
     (case u of
        JStr s \<Rightarrow> Inr s
      | _ \<Rightarrow> Inl [\<lparr>error_value = u, error_context = c\<rparr>])"

definition Email_validate :: "jsval \<Rightarrow> ContextEntry list \<Rightarrow> ValidationError list + Email" where
  "Email_validate u c = map_sum id isoEmail_wrap (t_string_validate u c)"

definition Email_decode :: "jsval \<Rightarrow> ValidationError list + Email" where
  "Email_decode u =
     Email_validate u [\<lparr>key = [], type_name = ''fromNewtype(string)'', actual = u\<rparr>]"

subsection \<open>Users and accounts\<close>

text \<open>The fields \<open>id\<close> and \<open>email\<close> of a user are \<open>User_id\<close> and \<open>User_email\<close> here.\<close>

record User =
  firstName :: string
  lastName :: string
  User_id :: UserId
  User_email :: Email

record Account =
  accountId :: AccountId
  ownerId :: UserId

section \<open>Effects\<close>

text \<open>
  A \<open>Task\<close> is a thunk of a promise. Running it may change the world \<open>'w\<close> (the database,
  the console) and settles the promise: \<open>Resolved\<close> with a value or \<open>Rejected\<close> with what
  was thrown. A \<open>TaskEither\<close> resolves to an \<open>Either\<close>, \<open>Inl\<close> being \<open>Left\<close>.
\<close>

datatype 'a promise = Rejected thrown | Resolved 'a

type_synonym ('w, 'a) Task = "'w \<Rightarrow> 'a promise \<times> 'w"
type_synonym ('w, 'e, 'a) TaskEither = "('w, 'e + 'a) Task"

text \<open>
  A \<open>ReaderTaskEither\<close> takes its environment and is run. Beside the settled promise and
  the world it leaves, the model returns the log of the calls the computation made on the
  operations of its environment, in order: what a spy on each operation would record.
\<close>

datatype call =
    Call_log string
  | Call_getUserByEmail Email
  | Call_getAccountByOwnerId UserId
  | Call_db_get string jsval

type_synonym ('r, 'w, 'e, 'a) ReaderTaskEither = "'r \<Rightarrow> 'w \<Rightarrow> ('e + 'a) promise \<times> 'w \<times> call list"

definition flow :: "('a \<Rightarrow> 'b) \<Rightarrow> ('b \<Rightarrow> 'c) \<Rightarrow> 'a \<Rightarrow> 'c" where
  "flow f g = (\<lambda>a. g (f a))"

definition TE_of :: "'a \<Rightarrow> ('w, 'e, 'a) TaskEither" where
  "TE_of a = (\<lambda>w. (Resolved (Inr a), w))"

definition RTE_of :: "'a \<Rightarrow> ('r, 'w, 'e, 'a) ReaderTaskEither" where
  "RTE_of a = (\<lambda>r w. (Resolved (Inr a), w, []))"

definition RTE_map :: "('a \<Rightarrow> 'b) \<Rightarrow> ('r, 'w, 'e, 'a) ReaderTaskEither \<Rightarrow> ('r, 'w, 'e, 'b) ReaderTaskEither" where
  "RTE_map f ma =
     (\<lambda>r w. case ma r w of
        (p, w1, c1) \<Rightarrow>
          (case p of
             Rejected t \<Rightarrow> (Rejected t, w1, c1)
           | Resolved ea \<Rightarrow>
               (case ea of
                  Inl e \<Rightarrow> (Resolved (Inl e), w1, c1)
                | Inr a \<Rightarrow> (Resolved (Inr (f a)), w1, c1))))"

text \<open>
  \<open>flatMap\<close>: the second computation is built from the value of the first and run after
  it, in the world the first one left; a \<open>Left\<close> or a rejection of the first ends the
  chain.
\<close>

definition RTE_flatMap :: "('a \<Rightarrow> ('r, 'w, 'e, 'b) ReaderTaskEither) \<Rightarrow> ('r, 'w, 'e, 'a) ReaderTaskEither \<Rightarrow> ('r, 'w, 'e, 'b) ReaderTaskEither" where
  "RTE_flatMap f ma =
     (\<lambda>r w. case ma r w of
        (p, w1, c1) \<Rightarrow>
          (case p of
             Rejected t \<Rightarrow> (Rejected t, w1, c1)
           | Resolved ea \<Rightarrow>
               (case ea of
                  Inl e \<Rightarrow> (Resolved (Inl e), w1, c1)
                | Inr a \<Rightarrow> (case f a r w1 of (q, w2, c2) \<Rightarrow> (q, w2, c1 @ c2)))))"

definition RTE_tap :: "('a \<Rightarrow> ('r, 'w, 'e, 'b) ReaderTaskEither) \<Rightarrow> ('r, 'w, 'e, 'a) ReaderTaskEither \<Rightarrow> ('r, 'w, 'e, 'a) ReaderTaskEither" where
  "RTE_tap f ma = RTE_flatMap (\<lambda>a. RTE_map (\<lambda>_. a) (f a)) ma"

text \<open>
  \<open>local\<close> runs a computation on a part of a larger environment. TypeScript's structural
  subtyping does this silently wherever a computation that needs one capability is given
  an environment holding several; the model names the projection.
\<close>

definition RTE_local :: "('r2 \<Rightarrow> 'r1) \<Rightarrow> ('r1, 'w, 'e, 'a) ReaderTaskEither \<Rightarrow> ('r2, 'w, 'e, 'a) ReaderTaskEither" where
  "RTE_local f ma = (\<lambda>r. ma (f r))"

text \<open>A callback that throws inside the promise chain rejects the promise.\<close>

definition RTE_throw :: "thrown \<Rightarrow> ('r, 'w, 'e, 'a) ReaderTaskEither" where
  "RTE_throw t = (\<lambda>r w. (Rejected t, w, []))"

text \<open>\<open>ReaderTask.map\<close> acts on the resolved \<open>Either\<close> as a whole.\<close>

definition RT_map :: "('e1 + 'a \<Rightarrow> 'e2 + 'b) \<Rightarrow> ('r, 'w, 'e1, 'a) ReaderTaskEither \<Rightarrow> ('r, 'w, 'e2, 'b) ReaderTaskEither" where
  "RT_map f ma =
     (\<lambda>r w. case ma r w of
        (p, w1, c1) \<Rightarrow>
          (case p of
             Rejected t \<Rightarrow> (Rejected t, w1, c1)
           | Resolved x \<Rightarrow> (Resolved (f x), w1, c1)))"

text \<open>
  \<open>bimap\<close> and \<open>flatMapEither\<close> with callbacks that may throw (\<open>Inl\<close> of the callback's
  result): the providers pass constructors of error classes.
\<close>

definition RTE_bimap :: "('e1 \<Rightarrow> thrown + 'e2) \<Rightarrow> ('a \<Rightarrow> 'b) \<Rightarrow> ('r, 'w, 'e1, 'a) ReaderTaskEither \<Rightarrow> ('r, 'w, 'e2, 'b) ReaderTaskEither" where
  "RTE_bimap f g ma =
     (\<lambda>r w. case ma r w of
        (p, w1, c1) \<Rightarrow>
          (case p of
             Rejected t \<Rightarrow> (Rejected t, w1, c1)
           | Resolved ea \<Rightarrow>
               (case ea of
                  Inl e \<Rightarrow>
                    (case f e of
                       Inl t \<Rightarrow> (Rejected t, w1, c1)
                     | Inr e' \<Rightarrow> (Resolved (Inl e'), w1, c1))
                | Inr a \<Rightarrow> (Resolved (Inr (g a)), w1, c1))))"

definition RTE_flatMapEither :: "('a \<Rightarrow> thrown + ('e + 'b)) \<Rightarrow> ('r, 'w, 'e, 'a) ReaderTaskEither \<Rightarrow> ('r, 'w, 'e, 'b) ReaderTaskEither" where
  "RTE_flatMapEither f ma =
     (\<lambda>r w. case ma r w of
        (p, w1, c1) \<Rightarrow>
          (case p of
             Rejected t \<Rightarrow> (Rejected t, w1, c1)
           | Resolved ea \<Rightarrow>
               (case ea of
                  Inl e \<Rightarrow> (Resolved (Inl e), w1, c1)
                | Inr a \<Rightarrow>
                    (case f a of
                       Inl t \<Rightarrow> (Rejected t, w1, c1)
                     | Inr eb \<Rightarrow> (Resolved eb, w1, c1)))))"

subsection \<open>Options\<close>

definition O_flatten :: "'a option option \<Rightarrow> 'a option" where
  "O_flatten mma = (case mma of None \<Rightarrow> None | Some ma \<Rightarrow> ma)"

definition O_fromNullable :: "jsval \<Rightarrow> jsval option" where
  "O_fromNullable a = (case a of JUndefined \<Rightarrow> None | JNull \<Rightarrow> None | _ \<Rightarrow> Some a)"

text \<open>\<open>O.traverse\<close> at the applicative of \<open>ReaderTaskEither\<close>, and at the one of \<open>Either\<close>.\<close>

definition O_traverse_RTE :: "('a \<Rightarrow> ('r, 'w, 'e, 'b) ReaderTaskEither) \<Rightarrow> 'a option \<Rightarrow> ('r, 'w, 'e, 'b option) ReaderTaskEither" where
  "O_traverse_RTE f ta = (case ta of None \<Rightarrow> RTE_of None | Some a \<Rightarrow> RTE_map Some (f a))"

definition O_traverse_E :: "('a \<Rightarrow> thrown + ('e + 'b)) \<Rightarrow> 'a option \<Rightarrow> thrown + ('e + 'b option)" where
  "O_traverse_E f ta =
     (case ta of
        None \<Rightarrow> Inr (Inr None)
      | Some a \<Rightarrow>
          (case f a of
             Inl t \<Rightarrow> Inl t
           | Inr eb \<Rightarrow> Inr (map_sum id Some eb)))"

text \<open>\<open>ReadonlyRecord.lookup\<close> tests for an own property; a record is its entries.\<close>

definition RR_lookup :: "string \<Rightarrow> (string \<times> 'a) list \<Rightarrow> 'a option" where
  "RR_lookup k r = map_of r k"

section \<open>Service contracts\<close>

text \<open>
  Each service is a record under a symbol key of its own, holding one operation; the
  factory wraps the definition, and the accessor function takes the arguments of the
  operation and returns a computation on any environment holding the service. The call
  an accessor makes on the operation is what the call log records.
\<close>

record 'w LoggingService =
  LoggingService_log :: "string \<Rightarrow> ('w, unit) Task"

record ('w, 'e) UserService =
  UserService_getUserByEmail :: "Email \<Rightarrow> ('w, 'e, User option) TaskEither"

record ('w, 'e) AccountService =
  AccountService_getAccountByOwnerId :: "UserId \<Rightarrow> ('w, 'e, Account option) TaskEither"

definition createLoggingService :: "(string \<Rightarrow> ('w, unit) Task) \<Rightarrow> 'w LoggingService" where
  "createLoggingService definition = \<lparr>LoggingService_log = definition\<rparr>"

definition createUserService :: "(Email \<Rightarrow> ('w, 'e, User option) TaskEither) \<Rightarrow> ('w, 'e) UserService" where
  "createUserService definition = \<lparr>UserService_getUserByEmail = definition\<rparr>"

definition createAccountService :: "(UserId \<Rightarrow> ('w, 'e, Account option) TaskEither) \<Rightarrow> ('w, 'e) AccountService" where
  "createAccountService definition = \<lparr>AccountService_getAccountByOwnerId = definition\<rparr>"

text \<open>\<open>log\<close> lifts the task with \<open>TE.fromTask\<close>: what it resolves to becomes a \<open>Right\<close>.\<close>

definition log :: "string \<Rightarrow> ('w LoggingService, 'w, 'e, unit) ReaderTaskEither" where
  "log msg =
     (\<lambda>service w. case LoggingService_log service msg w of
        (p, w1) \<Rightarrow>
          (case p of
             Rejected t \<Rightarrow> (Rejected t, w1, [Call_log msg])
           | Resolved u \<Rightarrow> (Resolved (Inr u), w1, [Call_log msg])))"

definition getUserByEmail :: "Email \<Rightarrow> (('w, 'e) UserService, 'w, 'e, User option) ReaderTaskEither" where
  "getUserByEmail email =
     (\<lambda>service w. case UserService_getUserByEmail service email w of
        (p, w1) \<Rightarrow> (p, w1, [Call_getUserByEmail email]))"

definition getAccountByOwnerId :: "UserId \<Rightarrow> (('w, 'e) AccountService, 'w, 'e, Account option) ReaderTaskEither" where
  "getAccountByOwnerId owner =
     (\<lambda>service w. case AccountService_getAccountByOwnerId service owner w of
        (p, w1) \<Rightarrow> (p, w1, [Call_getAccountByOwnerId owner]))"

section \<open>Shell: the account of the owner of an email\<close>

text \<open>
  The environment \<open>UserService & AccountService\<close>: an object with both symbol keys. The
  error type \<open>'e\<close> stands for the union \<open>UserServiceError | AccountServiceError\<close>, in
  which the errors of both services live.
\<close>

record ('w, 'e) Deps =
  the_UserService :: "('w, 'e) UserService"
  the_AccountService :: "('w, 'e) AccountService"

definition getAccountByUserEmail :: "Email \<Rightarrow> (('w, 'e) Deps, 'w, 'e, Account option) ReaderTaskEither" where
  "getAccountByUserEmail =
     flow (\<lambda>email. RTE_local the_UserService (getUserByEmail email))
       (RTE_flatMap
          (flow (O_traverse_RTE (\<lambda>u. RTE_local the_AccountService (getAccountByOwnerId (User_id u))))
             (RTE_map O_flatten)))"

section \<open>Providers\<close>

text \<open>A provider hands a computation over its own dependencies out as a plain task.\<close>

definition Task_of :: "('w \<Rightarrow> 'a promise \<times> 'w \<times> call list) \<Rightarrow> ('w, 'a) Task" where
  "Task_of t = (\<lambda>w. case t w of (p, w1, c) \<Rightarrow> (p, w1))"

subsection \<open>The hardcoded user provider\<close>

definition HardcodedUserDb :: "(string \<times> User) list" where
  "HardcodedUserDb =
     [(''ekent@mercury.com'',
       \<lparr>firstName = ''Ethan'',
        lastName = ''Kent'',
        User_id = isoUserId_wrap ''a2a9a967-10bb-43b9-8230-99ae3a3d161f'',
        User_email = isoEmail_wrap ''ekent@mercury.com''\<rparr>)]"

text \<open>
  The objects that \<open>JSON.stringify\<close> meets in the second log message: a user with its
  properties in the order of the literal above, inside an \<open>Option\<close> of fp-ts.
\<close>

definition User_to_js :: "User \<Rightarrow> jsval" where
  "User_to_js u =
     JObj [(''firstName'', JStr (firstName u)),
           (''lastName'', JStr (lastName u)),
           (''id'', JStr (isoUserId_unwrap (User_id u))),
           (''email'', JStr (isoEmail_unwrap (User_email u)))]"

definition O_to_js :: "('a \<Rightarrow> jsval) \<Rightarrow> 'a option \<Rightarrow> jsval" where
  "O_to_js f ma =
     (case ma of
        None \<Rightarrow> JObj [(''_tag'', JStr ''None'')]
      | Some a \<Rightarrow> JObj [(''_tag'', JStr ''Some''), (''value'', f a)])"

definition Hardcoded_getUserByEmail :: "Email \<Rightarrow> ('w LoggingService, 'w, 'e, User option) ReaderTaskEither" where
  "Hardcoded_getUserByEmail =
     flow isoEmail_unwrap
       (flow RTE_of
          (flow (RTE_tap (\<lambda>m. log (''Looking up email `'' @ m @ ''`'')))
             (flow (RTE_map (\<lambda>e. RR_lookup e HardcodedUserDb))
                (RTE_tap (\<lambda>u. case JSON_stringify (O_to_js User_to_js u) 0 of
                                 Inl t \<Rightarrow> RTE_throw t
                               | Inr None \<Rightarrow> log (''Result: undefined'')
                               | Inr (Some s) \<Rightarrow> log (''Result: '' @ s))))))"

definition createHardcodedUserProvider :: "'w LoggingService \<Rightarrow> ('w, 'e) UserService" where
  "createHardcodedUserProvider deps =
     createUserService (\<lambda>email. Task_of (Hardcoded_getUserByEmail email deps))"

subsection \<open>The hardcoded account provider\<close>

definition HardcodedAccountDb :: "(string \<times> Account) list" where
  "HardcodedAccountDb =
     [(''a2a9a967-10bb-43b9-8230-99ae3a3d161f'',
       \<lparr>accountId = isoAccountId_wrap ''69bdcc3d-95df-4497-a6a7-c529e1b010d6'',
        ownerId = isoUserId_wrap ''a2a9a967-10bb-43b9-8230-99ae3a3d161f''\<rparr>)]"

definition HardcodedAccountProvider :: "('w, 'e) AccountService" where
  "HardcodedAccountProvider =
     createAccountService
       (\<lambda>owner. TE_of (RR_lookup (isoUserId_unwrap owner) HardcodedAccountDb))"

subsection \<open>The database user provider\<close>

datatype UserServiceError =
    UserServiceDbQueryError DomainError
  | UserServiceInvalidDataError DomainError

fun UserServiceError_name :: "UserServiceError \<Rightarrow> string" where
  "UserServiceError_name (UserServiceDbQueryError d) = ''UserServiceDbQueryError''"
| "UserServiceError_name (UserServiceInvalidDataError d) = ''UserServiceInvalidDataError''"

definition UserServiceDbQueryError_new :: "(jsval \<Rightarrow> string) \<Rightarrow> jsval \<Rightarrow> thrown + UserServiceError" where
  "UserServiceDbQueryError_new inspect data = map_sum id UserServiceDbQueryError (DomainError_new inspect data)"

definition UserServiceInvalidDataError_new :: "(jsval \<Rightarrow> string) \<Rightarrow> jsval \<Rightarrow> thrown + UserServiceError" where
  "UserServiceInvalidDataError_new inspect data = map_sum id UserServiceInvalidDataError (DomainError_new inspect data)"

text \<open>
  \<open>db.get(query, param, callback)\<close> of sqlite3 runs the query and calls back once, with
  an error or \<open>null\<close> and with the row: the operation is modelled by the pair it passes
  to its callback.
\<close>

record 'w Database =
  Database_get :: "string \<Rightarrow> jsval \<Rightarrow> 'w \<Rightarrow> (jsval \<times> jsval) \<times> 'w"

record 'w GetUserByEmailDeps =
  db :: "'w Database"
  logging :: "'w LoggingService"

text \<open>
  The promise rejects with a truthy \<open>err\<close> and resolves with the row otherwise;
  \<open>TE.tryCatch\<close> with \<open>identity\<close> turns the rejection into a \<open>Left\<close> of the same value.
\<close>

definition taskifiedGet :: "string \<Rightarrow> jsval \<Rightarrow> ('w GetUserByEmailDeps, 'w, jsval, jsval) ReaderTaskEither" where
  "taskifiedGet query param =
     (\<lambda>deps w. case Database_get (db deps) query param w of
        ((err, result), w1) \<Rightarrow>
          (if truthy err then (Resolved (Inl err), w1, [Call_db_get query param])
           else (Resolved (Inr result), w1, [Call_db_get query param])))"

definition E_of :: "'a \<Rightarrow> 'e + 'a" where
  "E_of a = Inr a"

definition E_mapLeft :: "('e1 \<Rightarrow> thrown + 'e2) \<Rightarrow> 'e1 + 'a \<Rightarrow> thrown + ('e2 + 'a)" where
  "E_mapLeft f ea =
     (case ea of
        Inl e \<Rightarrow> (case f e of Inl t \<Rightarrow> Inl t | Inr e' \<Rightarrow> Inr (Inl e'))
      | Inr a \<Rightarrow> Inr (Inr a))"

text \<open>The error type \<open>never\<close> of the logging computation; no value of it occurs.\<close>

typedecl never

text \<open>
  \<open>getUserByEmail\<close> of the database provider. The codec \<open>User.decode\<close> is a parameter:
  it maps a row to the decoded user or to the validation errors of io-ts, a JavaScript
  value that the invalid-data error takes as its payload.
\<close>

definition Db_getUserByEmail :: "(jsval \<Rightarrow> string) \<Rightarrow> (jsval \<Rightarrow> jsval + User) \<Rightarrow> Email \<Rightarrow> ('w GetUserByEmailDeps, 'w, UserServiceError, User option) ReaderTaskEither" where
  "Db_getUserByEmail inspect User_decode email =
     RTE_flatMapEither
       (O_traverse_E
          (flow User_decode (E_mapLeft (\<lambda>e. UserServiceInvalidDataError_new inspect e))))
       (RTE_bimap (\<lambda>e. UserServiceDbQueryError_new inspect e) O_fromNullable
          (RTE_flatMap
             (\<lambda>_. taskifiedGet ''SELECT * FROM users WHERE email = ?''
                     (JArr [JStr (isoEmail_unwrap email)]))
             (RT_map (E_of :: never + unit \<Rightarrow> jsval + (never + unit))
                (RTE_local logging (log (''Preparing to query for '' @ isoEmail_unwrap email))))))"


section \<open>Environments of the test suites and of the entry point\<close>

text \<open>
  The console logging provider prints the message and resolves; its world is the console
  output, a list of lines.
\<close>

definition ConsoleLoggingProvider :: "string list LoggingService" where
  "ConsoleLoggingProvider = createLoggingService (\<lambda>m w. (Resolved (), w @ [m]))"

text \<open>
  The composition that the entry point offers for swapping in: the hardcoded user
  provider over console logging, beside the hardcoded account provider.
\<close>

definition hardcodedDeps :: "(string list, 'e) Deps" where
  "hardcodedDeps =
     \<lparr>the_UserService = createHardcodedUserProvider ConsoleLoggingProvider,
      the_AccountService = HardcodedAccountProvider\<rparr>"

text \<open>The mocks of the shell's test: both operations return a fixed present value.\<close>

definition mockUserProvider :: "('w, 'e) UserService" where
  "mockUserProvider =
     createUserService
       (\<lambda>email. TE_of (Some \<lparr>firstName = ''testFirstName'',
                            lastName = ''testLastName'',
                            User_id = isoUserId_wrap ''testUserId1'',
                            User_email = isoEmail_wrap ''testEmail''\<rparr>))"

definition mockAccountProvider :: "('w, 'e) AccountService" where
  "mockAccountProvider =
     createAccountService
       (\<lambda>owner. TE_of (Some \<lparr>accountId = isoAccountId_wrap ''testAccountId'',
                            ownerId = isoUserId_wrap ''testUserId2''\<rparr>))"

definition mockDeps :: "('w, 'e) Deps" where
  "mockDeps = \<lparr>the_UserService = mockUserProvider, the_AccountService = mockAccountProvider\<rparr>"

text \<open>
  The dependencies of the database provider's test: the database calls back with the
  error when there is one and with the row otherwise; logging resolves.
\<close>

definition mockDb :: "jsval \<Rightarrow> jsval \<Rightarrow> 'w Database" where
  "mockDb mockUser error =
     \<lparr>Database_get = (\<lambda>query params w.
        if truthy error then ((error, JNull), w) else ((JNull, mockUser), w))\<rparr>"

definition createTestDeps :: "jsval \<Rightarrow> jsval \<Rightarrow> 'w GetUserByEmailDeps" where
  "createTestDeps mockUser error =
     \<lparr>db = mockDb mockUser error,
      logging = createLoggingService (\<lambda>m w. (Resolved (), w))\<rparr>"

text \<open>The arguments that the recorded calls of \<open>getAccountByOwnerId\<close> were made with.\<close>

fun getAccountByOwnerId_calls :: "call list \<Rightarrow> UserId list" where
  "getAccountByOwnerId_calls [] = []"
| "getAccountByOwnerId_calls (Call_getAccountByOwnerId i # cs) = i # getAccountByOwnerId_calls cs"
| "getAccountByOwnerId_calls (_ # cs) = getAccountByOwnerId_calls cs"


section \<open>Running the shell\<close>

text \<open>
  What \<open>getAccountByUserEmail\<close> does on an environment and a world, with the
  combinators unfolded.
\<close>

lemma getAccountByUserEmail_run:
  "getAccountByUserEmail email env w =
     (case UserService_getUserByEmail (the_UserService env) email w of
        (p, w1) \<Rightarrow>
          (case p of
             Rejected t \<Rightarrow> (Rejected t, w1, [Call_getUserByEmail email])
           | Resolved eu \<Rightarrow>
               (case eu of
                  Inl e \<Rightarrow> (Resolved (Inl e), w1, [Call_getUserByEmail email])
                | Inr None \<Rightarrow> (Resolved (Inr None), w1, [Call_getUserByEmail email])
                | Inr (Some u) \<Rightarrow>
                    (case AccountService_getAccountByOwnerId (the_AccountService env) (User_id u) w1 of
                       (q, w2) \<Rightarrow>
                         (q, w2, [Call_getUserByEmail email, Call_getAccountByOwnerId (User_id u)])))))"
  by (simp add: getAccountByUserEmail_def flow_def RTE_local_def RTE_flatMap_def RTE_map_def
      RTE_of_def O_traverse_RTE_def O_flatten_def getUserByEmail_def getAccountByOwnerId_def
      split: prod.splits promise.splits sum.splits option.splits)

section \<open>Running the hardcoded user provider\<close>

lemma JSON_None:
  \<open>JSON_stringify (O_to_js User_to_js None) 0 = Inr (Some ''{"_tag":"None"}'')\<close>
  by (simp add: JSON_stringify_def O_to_js_def QuoteJSONString_def JSON_escape_def JSON_enclose_def)

lemma JSON_Some_hardcoded:
  \<open>JSON_stringify (O_to_js User_to_js
       (Some \<lparr>firstName = ''Ethan'', lastName = ''Kent'',
              User_id = isoUserId_wrap ''a2a9a967-10bb-43b9-8230-99ae3a3d161f'',
              User_email = isoEmail_wrap ''ekent@mercury.com''\<rparr>)) 0
   = Inr (Some ''{"_tag":"Some","value":{"firstName":"Ethan","lastName":"Kent","id":"a2a9a967-10bb-43b9-8230-99ae3a3d161f","email":"ekent@mercury.com"}}'')\<close>
  by (simp add: JSON_stringify_def O_to_js_def User_to_js_def QuoteJSONString_def JSON_escape_def
      JSON_enclose_def isoUserId_wrap_def isoEmail_wrap_def)

lemma Hardcoded_getUserByEmail_run:
  "Hardcoded_getUserByEmail email deps w =
     (let m1 = ''Looking up email `'' @ isoEmail_unwrap email @ ''`'';
          u = RR_lookup (isoEmail_unwrap email) HardcodedUserDb
      in case LoggingService_log deps m1 w of
           (p1, w1) \<Rightarrow>
             (case p1 of
                Rejected t \<Rightarrow> (Rejected t, w1, [Call_log m1])
              | Resolved _ \<Rightarrow>
                  (case JSON_stringify (O_to_js User_to_js u) 0 of
                     Inl t \<Rightarrow> (Rejected t, w1, [Call_log m1])
                   | Inr r \<Rightarrow>
                       (let m2 = ''Result: '' @ (case r of None \<Rightarrow> ''undefined'' | Some s \<Rightarrow> s)
                        in case LoggingService_log deps m2 w1 of
                             (p2, w2) \<Rightarrow>
                               (case p2 of
                                  Rejected t \<Rightarrow> (Rejected t, w2, [Call_log m1, Call_log m2])
                                | Resolved _ \<Rightarrow> (Resolved (Inr u), w2, [Call_log m1, Call_log m2]))))))"
  by (simp add: Hardcoded_getUserByEmail_def flow_def RTE_tap_def RTE_flatMap_def RTE_map_def
      RTE_of_def RTE_throw_def log_def Let_def
      split: prod.splits promise.splits sum.splits option.splits)

lemma Hardcoded_getUserByEmail_resolving:
  assumes "\<And>m v. fst (LoggingService_log deps m v) = Resolved ()"
    and "JSON_stringify (O_to_js User_to_js (RR_lookup (isoEmail_unwrap email) HardcodedUserDb)) 0
           = Inr (Some s)"
  shows "Hardcoded_getUserByEmail email deps w
           = (Resolved (Inr (RR_lookup (isoEmail_unwrap email) HardcodedUserDb)),
              snd (LoggingService_log deps (''Result: '' @ s)
                     (snd (LoggingService_log deps (''Looking up email `'' @ isoEmail_unwrap email @ ''`'') w))),
              [Call_log (''Looking up email `'' @ isoEmail_unwrap email @ ''`''),
               Call_log (''Result: '' @ s)])"
proof -
  let ?m1 = "''Looking up email `'' @ isoEmail_unwrap email @ ''`''"
  obtain p1 w1 where l1: "LoggingService_log deps ?m1 w = (p1, w1)"
    by (cases "LoggingService_log deps ?m1 w")
  with assms(1) [of ?m1 w] have p1: "p1 = Resolved ()" by simp
  obtain p2 w2 where l2: "LoggingService_log deps (''Result: '' @ s) w1 = (p2, w2)"
    by (cases "LoggingService_log deps (''Result: '' @ s) w1")
  with assms(1) [of "''Result: '' @ s" w1] have p2: "p2 = Resolved ()" by simp
  from l1 p1 assms(2) l2 p2 show ?thesis
    by (simp add: Hardcoded_getUserByEmail_run Let_def)
qed

lemma ConsoleLoggingProvider_resolves:
  "fst (LoggingService_log ConsoleLoggingProvider m v) = Resolved ()"
  by (simp add: ConsoleLoggingProvider_def createLoggingService_def)

lemma fst_Task_of: "fst (Task_of t w) = fst (t w)"
  by (simp add: Task_of_def split: prod.splits)

lemma hardcoded_user_provider_result:
  "fst (UserService_getUserByEmail (createHardcodedUserProvider ConsoleLoggingProvider) x v)
     = Resolved (Inr (RR_lookup (isoEmail_unwrap x) HardcodedUserDb))"
proof -
  have "\<exists>s. JSON_stringify (O_to_js User_to_js (RR_lookup (isoEmail_unwrap x) HardcodedUserDb)) 0
              = Inr (Some s)"
    using JSON_None JSON_Some_hardcoded
    by (simp add: RR_lookup_def HardcodedUserDb_def)
  then obtain s where s: "JSON_stringify (O_to_js User_to_js (RR_lookup (isoEmail_unwrap x) HardcodedUserDb)) 0
              = Inr (Some s)" ..
  show ?thesis
    by (simp add: createHardcodedUserProvider_def createUserService_def fst_Task_of
        Hardcoded_getUserByEmail_resolving [OF ConsoleLoggingProvider_resolves s])
qed

lemma hardcoded_user_provider_miss:
  \<open>UserService_getUserByEmail (createHardcodedUserProvider ConsoleLoggingProvider)
      (isoEmail_wrap ''unknown@mercury.com'') []
    = (Resolved (Inr None), [''Looking up email `unknown@mercury.com`'', ''Result: {"_tag":"None"}''])\<close>
  by (simp add: createHardcodedUserProvider_def createUserService_def Task_of_def
      Hardcoded_getUserByEmail_run ConsoleLoggingProvider_def createLoggingService_def
      isoEmail_wrap_def RR_lookup_def HardcodedUserDb_def JSON_None Let_def)

section \<open>Rendering an \<open>Error\<close> instance\<close>

lemma safeStringify_JError:
  "safeStringify inspect (JError n m) =
     Inr (Some (if Error_prototype_toString n m \<noteq> Object_prototype_toString
                then Error_prototype_toString n m else ''{}''))"
  by (simp add: safeStringify_def JSON_stringify_def)

section \<open>The claims about the shell\<close>

text \<open>
  Claim C1. For every email and every environment whose user service resolves, for that
  email, to a successful absent user, \<open>getAccountByUserEmail\<close> resolves to a successful
  absent account, in the world the user lookup left, and the only call it makes is the
  user lookup: \<open>getAccountByOwnerId\<close> of the account service is never invoked. Whatever
  account service the environment holds, the run is the same.
\<close>

theorem absent_user_short_circuits:
  assumes "UserService_getUserByEmail (the_UserService env) email w = (Resolved (Inr None), w1)"
  shows "getAccountByUserEmail email env w = (Resolved (Inr None), w1, [Call_getUserByEmail email])
       \<and> getAccountByOwnerId_calls (snd (snd (getAccountByUserEmail email env w))) = []
       \<and> getAccountByUserEmail email (env\<lparr>the_AccountService := other\<rparr>) w
           = getAccountByUserEmail email env w"
  using assms by (simp add: getAccountByUserEmail_run)

theorem absent_user_short_circuits_witness:
  \<open>UserService_getUserByEmail (the_UserService (hardcodedDeps :: (string list, unit) Deps))
      (isoEmail_wrap ''unknown@mercury.com'') []
    = (Resolved (Inr None), [''Looking up email `unknown@mercury.com`'', ''Result: {"_tag":"None"}''])
   \<and> getAccountByUserEmail (isoEmail_wrap ''unknown@mercury.com'')
       (hardcodedDeps :: (string list, unit) Deps) []
    = (Resolved (Inr None), [''Looking up email `unknown@mercury.com`'', ''Result: {"_tag":"None"}''],
       [Call_getUserByEmail (isoEmail_wrap ''unknown@mercury.com'')])
   \<and> getAccountByOwnerId_calls
        (snd (snd (getAccountByUserEmail (isoEmail_wrap ''unknown@mercury.com'')
                     (hardcodedDeps :: (string list, unit) Deps) []))) = []\<close>
proof -
  have h: \<open>UserService_getUserByEmail (the_UserService (hardcodedDeps :: (string list, unit) Deps))
      (isoEmail_wrap ''unknown@mercury.com'') []
    = (Resolved (Inr None), [''Looking up email `unknown@mercury.com`'', ''Result: {"_tag":"None"}''])\<close>
    by (simp add: hardcodedDeps_def hardcoded_user_provider_miss)
  from absent_user_short_circuits [OF h] h show ?thesis by blast
qed

text \<open>
  Claim C2. For every email and every environment whose user service resolves, for that
  email, to a failure, \<open>getAccountByUserEmail\<close> resolves to a failure with that same
  error value, and \<open>getAccountByOwnerId\<close> of the account service is never invoked.
  Whatever account service the environment holds, the run is the same.
\<close>

theorem user_failure_propagates:
  assumes "UserService_getUserByEmail (the_UserService env) email w = (Resolved (Inl e), w1)"
  shows "getAccountByUserEmail email env w = (Resolved (Inl e), w1, [Call_getUserByEmail email])
       \<and> getAccountByOwnerId_calls (snd (snd (getAccountByUserEmail email env w))) = []
       \<and> getAccountByUserEmail email (env\<lparr>the_AccountService := other\<rparr>) w
           = getAccountByUserEmail email env w"
  using assms by (simp add: getAccountByUserEmail_run)

theorem user_failure_propagates_witness:
  "UserService_getUserByEmail
     (the_UserService
        \<lparr>the_UserService =
           createUserService
             (\<lambda>email w. (Resolved (Inl (UserServiceDbQueryError \<lparr>message = Some ''Error: DB failure''\<rparr>)), w)),
         the_AccountService = HardcodedAccountProvider\<rparr>)
     (isoEmail_wrap ''ekent@mercury.com'') ()
   = (Resolved (Inl (UserServiceDbQueryError \<lparr>message = Some ''Error: DB failure''\<rparr>)), ())
   \<and> getAccountByUserEmail (isoEmail_wrap ''ekent@mercury.com'')
        \<lparr>the_UserService =
           createUserService
             (\<lambda>email w. (Resolved (Inl (UserServiceDbQueryError \<lparr>message = Some ''Error: DB failure''\<rparr>)), w)),
         the_AccountService = HardcodedAccountProvider\<rparr> ()
   = (Resolved (Inl (UserServiceDbQueryError \<lparr>message = Some ''Error: DB failure''\<rparr>)), (),
      [Call_getUserByEmail (isoEmail_wrap ''ekent@mercury.com'')])"
proof -
  have h: "UserService_getUserByEmail
     (the_UserService
        \<lparr>the_UserService =
           createUserService
             (\<lambda>email w. (Resolved (Inl (UserServiceDbQueryError \<lparr>message = Some ''Error: DB failure''\<rparr>)), w)),
         the_AccountService = HardcodedAccountProvider\<rparr>)
     (isoEmail_wrap ''ekent@mercury.com'') ()
   = (Resolved (Inl (UserServiceDbQueryError \<lparr>message = Some ''Error: DB failure''\<rparr>)), ())"
    by (simp add: createUserService_def)
  from user_failure_propagates [OF h] h show ?thesis by blast
qed

text \<open>
  Claim C3. For every email and every environment whose user service resolves, for that
  email, to a present user \<open>u\<close> and whose account service resolves, for the id of \<open>u\<close>, to a
  present account \<open>a\<close>, \<open>getAccountByUserEmail\<close> resolves to the present account \<open>a\<close>, and
  \<open>getAccountByOwnerId\<close> is invoked once, with exactly the id of \<open>u\<close>.
\<close>

theorem present_user_and_account:
  assumes "UserService_getUserByEmail (the_UserService env) email w = (Resolved (Inr (Some u)), w1)"
    and "AccountService_getAccountByOwnerId (the_AccountService env) (User_id u) w1
           = (Resolved (Inr (Some a)), w2)"
  shows "getAccountByUserEmail email env w
           = (Resolved (Inr (Some a)), w2,
              [Call_getUserByEmail email, Call_getAccountByOwnerId (User_id u)])
       \<and> getAccountByOwnerId_calls (snd (snd (getAccountByUserEmail email env w))) = [User_id u]"
  using assms by (simp add: getAccountByUserEmail_run)

theorem present_user_and_account_witness:
  "UserService_getUserByEmail (the_UserService (mockDeps :: (unit, unit) Deps)) (isoEmail_wrap ''input'') ()
     = (Resolved (Inr (Some \<lparr>firstName = ''testFirstName'', lastName = ''testLastName'',
                              User_id = isoUserId_wrap ''testUserId1'',
                              User_email = isoEmail_wrap ''testEmail''\<rparr>)), ())
   \<and> AccountService_getAccountByOwnerId (the_AccountService (mockDeps :: (unit, unit) Deps))
        (isoUserId_wrap ''testUserId1'') ()
     = (Resolved (Inr (Some \<lparr>accountId = isoAccountId_wrap ''testAccountId'',
                              ownerId = isoUserId_wrap ''testUserId2''\<rparr>)), ())
   \<and> getAccountByUserEmail (isoEmail_wrap ''input'') (mockDeps :: (unit, unit) Deps) ()
     = (Resolved (Inr (Some \<lparr>accountId = isoAccountId_wrap ''testAccountId'',
                              ownerId = isoUserId_wrap ''testUserId2''\<rparr>)), (),
        [Call_getUserByEmail (isoEmail_wrap ''input''),
         Call_getAccountByOwnerId (isoUserId_wrap ''testUserId1'')])
   \<and> getAccountByOwnerId_calls
        (snd (snd (getAccountByUserEmail (isoEmail_wrap ''input'') (mockDeps :: (unit, unit) Deps) ())))
     = [isoUserId_wrap ''testUserId1'']"
proof -
  have h1: "UserService_getUserByEmail (the_UserService (mockDeps :: (unit, unit) Deps)) (isoEmail_wrap ''input'') ()
     = (Resolved (Inr (Some \<lparr>firstName = ''testFirstName'', lastName = ''testLastName'',
                              User_id = isoUserId_wrap ''testUserId1'',
                              User_email = isoEmail_wrap ''testEmail''\<rparr>)), ())"
    by (simp add: mockDeps_def mockUserProvider_def createUserService_def TE_of_def)
  have h2: "AccountService_getAccountByOwnerId (the_AccountService (mockDeps :: (unit, unit) Deps))
        (User_id \<lparr>firstName = ''testFirstName'', lastName = ''testLastName'',
                  User_id = isoUserId_wrap ''testUserId1'',
                  User_email = isoEmail_wrap ''testEmail''\<rparr>) ()
     = (Resolved (Inr (Some \<lparr>accountId = isoAccountId_wrap ''testAccountId'',
                              ownerId = isoUserId_wrap ''testUserId2''\<rparr>)), ())"
    by (simp add: mockDeps_def mockAccountProvider_def createAccountService_def TE_of_def)
  from present_user_and_account [OF h1 h2] h1 h2 show ?thesis by simp
qed

text \<open>
  Claim C4. For every environment in which the user lookup resolves to a present user
  and the account lookup for that user's id resolves to a successful absent account,
  \<open>getAccountByUserEmail\<close> resolves to a successful absent account, and that result equals
  the result in any environment in which the user lookup itself resolves to an absent
  user.
\<close>

theorem absent_account_like_absent_user:
  assumes "UserService_getUserByEmail (the_UserService env) email w = (Resolved (Inr (Some u)), w1)"
    and "AccountService_getAccountByOwnerId (the_AccountService env) (User_id u) w1
           = (Resolved (Inr None), w2)"
    and "UserService_getUserByEmail (the_UserService env') email' w' = (Resolved (Inr None), w1')"
  shows "fst (getAccountByUserEmail email env w) = Resolved (Inr None)
       \<and> fst (getAccountByUserEmail email env w) = fst (getAccountByUserEmail email' env' w')"
  using assms by (simp add: getAccountByUserEmail_run)

theorem absent_account_like_absent_user_witness:
  "UserService_getUserByEmail
     (the_UserService \<lparr>the_UserService = mockUserProvider,
                       the_AccountService = (HardcodedAccountProvider :: (string list, unit) AccountService)\<rparr>)
     (isoEmail_wrap ''input'') []
     = (Resolved (Inr (Some \<lparr>firstName = ''testFirstName'', lastName = ''testLastName'',
                              User_id = isoUserId_wrap ''testUserId1'',
                              User_email = isoEmail_wrap ''testEmail''\<rparr>)), [])
   \<and> AccountService_getAccountByOwnerId
       (the_AccountService \<lparr>the_UserService = mockUserProvider,
                       the_AccountService = (HardcodedAccountProvider :: (string list, unit) AccountService)\<rparr>)
       (isoUserId_wrap ''testUserId1'') []
     = (Resolved (Inr None), [])
   \<and> fst (UserService_getUserByEmail (the_UserService (hardcodedDeps :: (string list, unit) Deps))
            (isoEmail_wrap ''unknown@mercury.com'') [])
     = Resolved (Inr None)
   \<and> fst (getAccountByUserEmail (isoEmail_wrap ''input'')
        \<lparr>the_UserService = mockUserProvider,
         the_AccountService = (HardcodedAccountProvider :: (string list, unit) AccountService)\<rparr> [])
     = Resolved (Inr None)
   \<and> fst (getAccountByUserEmail (isoEmail_wrap ''input'')
        \<lparr>the_UserService = mockUserProvider,
         the_AccountService = (HardcodedAccountProvider :: (string list, unit) AccountService)\<rparr> [])
     = fst (getAccountByUserEmail (isoEmail_wrap ''unknown@mercury.com'')
              (hardcodedDeps :: (string list, unit) Deps) [])"
proof -
  have h1: "UserService_getUserByEmail
     (the_UserService \<lparr>the_UserService = mockUserProvider,
                       the_AccountService = (HardcodedAccountProvider :: (string list, unit) AccountService)\<rparr>)
     (isoEmail_wrap ''input'') []
     = (Resolved (Inr (Some \<lparr>firstName = ''testFirstName'', lastName = ''testLastName'',
                              User_id = isoUserId_wrap ''testUserId1'',
                              User_email = isoEmail_wrap ''testEmail''\<rparr>)), [])"
    by (simp add: mockUserProvider_def createUserService_def TE_of_def)
  have h2: "AccountService_getAccountByOwnerId
       (the_AccountService \<lparr>the_UserService = mockUserProvider,
                       the_AccountService = (HardcodedAccountProvider :: (string list, unit) AccountService)\<rparr>)
       (User_id \<lparr>firstName = ''testFirstName'', lastName = ''testLastName'',
                 User_id = isoUserId_wrap ''testUserId1'',
                 User_email = isoEmail_wrap ''testEmail''\<rparr>) []
     = (Resolved (Inr None), [])"
    by (simp add: HardcodedAccountProvider_def createAccountService_def TE_of_def RR_lookup_def
        HardcodedAccountDb_def isoUserId_wrap_def)
  have h3: \<open>UserService_getUserByEmail (the_UserService (hardcodedDeps :: (string list, unit) Deps))
            (isoEmail_wrap ''unknown@mercury.com'') []
     = (Resolved (Inr None), [''Looking up email `unknown@mercury.com`'', ''Result: {"_tag":"None"}''])\<close>
    by (simp add: hardcodedDeps_def hardcoded_user_provider_miss)
  from absent_account_like_absent_user [OF h1 h2 h3]
  have c1: "fst (getAccountByUserEmail (isoEmail_wrap ''input'')
        \<lparr>the_UserService = mockUserProvider,
         the_AccountService = (HardcodedAccountProvider :: (string list, unit) AccountService)\<rparr> [])
     = Resolved (Inr None)"
    and c2: "fst (getAccountByUserEmail (isoEmail_wrap ''input'')
        \<lparr>the_UserService = mockUserProvider,
         the_AccountService = (HardcodedAccountProvider :: (string list, unit) AccountService)\<rparr> [])
     = fst (getAccountByUserEmail (isoEmail_wrap ''unknown@mercury.com'')
              (hardcodedDeps :: (string list, unit) Deps) [])"
    by blast+
  have h2': "AccountService_getAccountByOwnerId
       (the_AccountService \<lparr>the_UserService = mockUserProvider,
                       the_AccountService = (HardcodedAccountProvider :: (string list, unit) AccountService)\<rparr>)
       (isoUserId_wrap ''testUserId1'') []
     = (Resolved (Inr None), [])"
    using h2 by simp
  have h3': "fst (UserService_getUserByEmail (the_UserService (hardcodedDeps :: (string list, unit) Deps))
            (isoEmail_wrap ''unknown@mercury.com'') [])
     = Resolved (Inr None)"
    using h3 by simp
  from h1 h2' h3' c1 c2 show ?thesis by (intro conjI)
qed

text \<open>
  Claim C7. In an environment whose two operations are pure functions of their input
  (what they settle with does not depend on the world they run in),
  \<open>getAccountByUserEmail\<close> settles with the same result in any two worlds; in particular
  a second invocation with the same email, run in the world the first one left, yields
  the result of the first.
\<close>

theorem deterministic_under_pure_collaborators:
  assumes "\<And>x v v'. fst (UserService_getUserByEmail (the_UserService env) x v)
                       = fst (UserService_getUserByEmail (the_UserService env) x v')"
    and "\<And>x v v'. fst (AccountService_getAccountByOwnerId (the_AccountService env) x v)
                       = fst (AccountService_getAccountByOwnerId (the_AccountService env) x v')"
  shows "fst (getAccountByUserEmail email env w) = fst (getAccountByUserEmail email env w')
       \<and> fst (getAccountByUserEmail email env (fst (snd (getAccountByUserEmail email env w))))
           = fst (getAccountByUserEmail email env w)"
proof -
  have general: "fst (getAccountByUserEmail email env v) = fst (getAccountByUserEmail email env v')"
    for v v'
  proof -
    obtain p v1 where u: "UserService_getUserByEmail (the_UserService env) email v = (p, v1)"
      by (cases "UserService_getUserByEmail (the_UserService env) email v")
    obtain p' v1' where u': "UserService_getUserByEmail (the_UserService env) email v' = (p', v1')"
      by (cases "UserService_getUserByEmail (the_UserService env) email v'")
    from assms(1) [of email v v'] u u' have pp: "p' = p" by simp
    show ?thesis
    proof (cases p)
      case (Rejected t)
      with u u' pp show ?thesis by (simp add: getAccountByUserEmail_run)
    next
      case (Resolved eu)
      show ?thesis
      proof (cases eu)
        case (Inl e)
        with Resolved u u' pp show ?thesis by (simp add: getAccountByUserEmail_run)
      next
        case (Inr ou)
        show ?thesis
        proof (cases ou)
          case None
          with Inr Resolved u u' pp show ?thesis by (simp add: getAccountByUserEmail_run)
        next
          case (Some usr)
          obtain q v2 where a:
            "AccountService_getAccountByOwnerId (the_AccountService env) (User_id usr) v1 = (q, v2)"
            by (cases "AccountService_getAccountByOwnerId (the_AccountService env) (User_id usr) v1")
          obtain q' v2' where a':
            "AccountService_getAccountByOwnerId (the_AccountService env) (User_id usr) v1' = (q', v2')"
            by (cases "AccountService_getAccountByOwnerId (the_AccountService env) (User_id usr) v1'")
          from assms(2) [of "User_id usr" v1 v1'] a a' have "q' = q" by simp
          with Some Inr Resolved u u' pp a a'
          show ?thesis by (simp add: getAccountByUserEmail_run)
        qed
      qed
    qed
  qed
  from general [of w w'] general [of "fst (snd (getAccountByUserEmail email env w))" w]
  show ?thesis by simp
qed

theorem deterministic_under_pure_collaborators_witness:
  "(\<forall>x v v'. fst (UserService_getUserByEmail (the_UserService (hardcodedDeps :: (string list, unit) Deps)) x v)
               = fst (UserService_getUserByEmail (the_UserService (hardcodedDeps :: (string list, unit) Deps)) x v'))
   \<and> (\<forall>x v v'. fst (AccountService_getAccountByOwnerId (the_AccountService (hardcodedDeps :: (string list, unit) Deps)) x v)
               = fst (AccountService_getAccountByOwnerId (the_AccountService (hardcodedDeps :: (string list, unit) Deps)) x v'))
   \<and> fst (getAccountByUserEmail (isoEmail_wrap ''ekent@mercury.com'') (hardcodedDeps :: (string list, unit) Deps) [])
       = fst (getAccountByUserEmail (isoEmail_wrap ''ekent@mercury.com'') (hardcodedDeps :: (string list, unit) Deps)
                [''an earlier line of console output''])
   \<and> fst (getAccountByUserEmail (isoEmail_wrap ''ekent@mercury.com'') (hardcodedDeps :: (string list, unit) Deps)
            (fst (snd (getAccountByUserEmail (isoEmail_wrap ''ekent@mercury.com'')
                         (hardcodedDeps :: (string list, unit) Deps) []))))
       = fst (getAccountByUserEmail (isoEmail_wrap ''ekent@mercury.com'') (hardcodedDeps :: (string list, unit) Deps) [])"
proof -
  have h1: "\<And>x v v'. fst (UserService_getUserByEmail (the_UserService (hardcodedDeps :: (string list, unit) Deps)) x v)
               = fst (UserService_getUserByEmail (the_UserService (hardcodedDeps :: (string list, unit) Deps)) x v')"
    by (simp add: hardcodedDeps_def hardcoded_user_provider_result)
  have h2: "\<And>x v v'. fst (AccountService_getAccountByOwnerId (the_AccountService (hardcodedDeps :: (string list, unit) Deps)) x v)
               = fst (AccountService_getAccountByOwnerId (the_AccountService (hardcodedDeps :: (string list, unit) Deps)) x v')"
    by (simp add: hardcodedDeps_def HardcodedAccountProvider_def createAccountService_def TE_of_def)
  from deterministic_under_pure_collaborators [OF h1 h2,
      of "isoEmail_wrap ''ekent@mercury.com''" "[]" "[''an earlier line of console output'']"] h1 h2
  show ?thesis by blast
qed


section \<open>The claims about the providers and the core\<close>

text \<open>
  Claim C5. For every email, when logging resolves and the database's \<open>get\<close> calls back
  with an \<open>Error\<close> instance, \<open>getUserByEmail\<close> of the database provider resolves to a
  failure of class \<open>UserServiceDbQueryError\<close>. The error is the one the constructor builds
  from the original error as its payload, unchanged: its message is the rendering
  \<open>name: message\<close> of the original error.
\<close>

theorem db_error_yields_query_failure:
  assumes "LoggingService_log (logging deps) (''Preparing to query for '' @ isoEmail_unwrap email) w
             = (Resolved (), w1)"
    and "Database_get (db deps) ''SELECT * FROM users WHERE email = ?''
           (JArr [JStr (isoEmail_unwrap email)]) w1 = ((JError n m, row), w2)"
  shows "Db_getUserByEmail inspect User_decode email deps w
           = (Resolved (Inl (UserServiceDbQueryError
                \<lparr>message = Some (if Error_prototype_toString n m \<noteq> Object_prototype_toString
                                  then Error_prototype_toString n m else ''{}'')\<rparr>)),
              w2,
              [Call_log (''Preparing to query for '' @ isoEmail_unwrap email),
               Call_db_get ''SELECT * FROM users WHERE email = ?'' (JArr [JStr (isoEmail_unwrap email)])])
       \<and> UserServiceDbQueryError_new inspect (JError n m)
           = Inr (UserServiceDbQueryError
                \<lparr>message = Some (if Error_prototype_toString n m \<noteq> Object_prototype_toString
                                  then Error_prototype_toString n m else ''{}'')\<rparr>)
       \<and> UserServiceError_name (UserServiceDbQueryError
                \<lparr>message = Some (if Error_prototype_toString n m \<noteq> Object_prototype_toString
                                  then Error_prototype_toString n m else ''{}'')\<rparr>)
           = ''UserServiceDbQueryError''"
  using assms
  by (simp add: Db_getUserByEmail_def RTE_flatMapEither_def RTE_bimap_def RTE_flatMap_def
      RT_map_def RTE_local_def log_def taskifiedGet_def E_of_def UserServiceDbQueryError_new_def
      DomainError_new_def safeStringify_JError)

theorem db_error_yields_query_failure_witness:
  "LoggingService_log (logging (createTestDeps JNull (JError ''Error'' ''DB failure'')))
     (''Preparing to query for '' @ isoEmail_unwrap (isoEmail_wrap ''ekent@mercury.com'')) () = (Resolved (), ())
   \<and> Database_get (db (createTestDeps JNull (JError ''Error'' ''DB failure'')))
        ''SELECT * FROM users WHERE email = ?''
        (JArr [JStr (isoEmail_unwrap (isoEmail_wrap ''ekent@mercury.com''))]) ()
      = ((JError ''Error'' ''DB failure'', JNull), ())
   \<and> Db_getUserByEmail inspect_BigInt (\<lambda>row. Inl (JArr [])) (isoEmail_wrap ''ekent@mercury.com'')
        (createTestDeps JNull (JError ''Error'' ''DB failure'')) ()
      = (Resolved (Inl (UserServiceDbQueryError \<lparr>message = Some ''Error: DB failure''\<rparr>)), (),
         [Call_log ''Preparing to query for ekent@mercury.com'',
          Call_db_get ''SELECT * FROM users WHERE email = ?'' (JArr [JStr ''ekent@mercury.com''])])"
proof -
  have h1: "LoggingService_log (logging (createTestDeps JNull (JError ''Error'' ''DB failure'')))
     (''Preparing to query for '' @ isoEmail_unwrap (isoEmail_wrap ''ekent@mercury.com'')) () = (Resolved (), ())"
    by (simp add: createTestDeps_def createLoggingService_def)
  have h2: "Database_get (db (createTestDeps JNull (JError ''Error'' ''DB failure'')))
        ''SELECT * FROM users WHERE email = ?''
        (JArr [JStr (isoEmail_unwrap (isoEmail_wrap ''ekent@mercury.com''))]) ()
      = ((JError ''Error'' ''DB failure'', JNull), ())"
    by (simp add: createTestDeps_def mockDb_def)
  from db_error_yields_query_failure [OF h1 h2, of inspect_BigInt "\<lambda>row. Inl (JArr [])"] h1 h2
  show ?thesis
    by (simp add: isoEmail_wrap_def Error_prototype_toString_def Object_prototype_toString_def)
qed




text \<open>
  Claim C8. With a logging service that resolves, the hardcoded user provider's lookup
  of \<open>ekent@mercury.com\<close> resolves to the present user Ethan Kent, after calling \<open>log\<close>
  with the literal message naming that email between backquotes and then with the
  result; for any email that is not a key of the hardcoded record the lookup resolves
  to an absent user after the analogous two messages.
\<close>

theorem hardcoded_user_lookup:
  assumes "\<And>m v. fst (LoggingService_log deps m v) = Resolved ()"
  shows \<open>(Hardcoded_getUserByEmail (isoEmail_wrap ''ekent@mercury.com'') deps w
            :: ('e + User option) promise \<times> 'w \<times> call list)
           = (Resolved (Inr (Some \<lparr>firstName = ''Ethan'', lastName = ''Kent'',
                                    User_id = isoUserId_wrap ''a2a9a967-10bb-43b9-8230-99ae3a3d161f'',
                                    User_email = isoEmail_wrap ''ekent@mercury.com''\<rparr>)),
              snd (LoggingService_log deps
                     ''Result: {"_tag":"Some","value":{"firstName":"Ethan","lastName":"Kent","id":"a2a9a967-10bb-43b9-8230-99ae3a3d161f","email":"ekent@mercury.com"}}''
                     (snd (LoggingService_log deps ''Looking up email `ekent@mercury.com`'' w))),
              [Call_log ''Looking up email `ekent@mercury.com`'',
               Call_log ''Result: {"_tag":"Some","value":{"firstName":"Ethan","lastName":"Kent","id":"a2a9a967-10bb-43b9-8230-99ae3a3d161f","email":"ekent@mercury.com"}}''])
       \<and> (isoEmail_unwrap email \<noteq> ''ekent@mercury.com'' \<longrightarrow>
            (Hardcoded_getUserByEmail email deps w :: ('e + User option) promise \<times> 'w \<times> call list)
              = (Resolved (Inr None),
                 snd (LoggingService_log deps ''Result: {"_tag":"None"}''
                        (snd (LoggingService_log deps
                                (''Looking up email `'' @ isoEmail_unwrap email @ ''`'') w))),
                 [Call_log (''Looking up email `'' @ isoEmail_unwrap email @ ''`''),
                  Call_log ''Result: {"_tag":"None"}'']))\<close>
proof -
  have hit: "RR_lookup (isoEmail_unwrap (isoEmail_wrap ''ekent@mercury.com'')) HardcodedUserDb
               = Some \<lparr>firstName = ''Ethan'', lastName = ''Kent'',
                       User_id = isoUserId_wrap ''a2a9a967-10bb-43b9-8230-99ae3a3d161f'',
                       User_email = isoEmail_wrap ''ekent@mercury.com''\<rparr>"
    by (simp add: RR_lookup_def HardcodedUserDb_def isoEmail_wrap_def)
  have m1: "''Looking up email `'' @ isoEmail_unwrap (isoEmail_wrap ''ekent@mercury.com'') @ ''`''
              = ''Looking up email `ekent@mercury.com`''"
    by (simp add: isoEmail_wrap_def)
  from Hardcoded_getUserByEmail_resolving [OF assms, of "isoEmail_wrap ''ekent@mercury.com''" _ w]
    JSON_Some_hardcoded hit m1
  have present: \<open>(Hardcoded_getUserByEmail (isoEmail_wrap ''ekent@mercury.com'') deps w
            :: ('e + User option) promise \<times> 'w \<times> call list)
           = (Resolved (Inr (Some \<lparr>firstName = ''Ethan'', lastName = ''Kent'',
                                    User_id = isoUserId_wrap ''a2a9a967-10bb-43b9-8230-99ae3a3d161f'',
                                    User_email = isoEmail_wrap ''ekent@mercury.com''\<rparr>)),
              snd (LoggingService_log deps
                     ''Result: {"_tag":"Some","value":{"firstName":"Ethan","lastName":"Kent","id":"a2a9a967-10bb-43b9-8230-99ae3a3d161f","email":"ekent@mercury.com"}}''
                     (snd (LoggingService_log deps ''Looking up email `ekent@mercury.com`'' w))),
              [Call_log ''Looking up email `ekent@mercury.com`'',
               Call_log ''Result: {"_tag":"Some","value":{"firstName":"Ethan","lastName":"Kent","id":"a2a9a967-10bb-43b9-8230-99ae3a3d161f","email":"ekent@mercury.com"}}''])\<close>
    by simp
  have absent: \<open>(Hardcoded_getUserByEmail email deps w :: ('e + User option) promise \<times> 'w \<times> call list)
              = (Resolved (Inr None),
                 snd (LoggingService_log deps ''Result: {"_tag":"None"}''
                        (snd (LoggingService_log deps
                                (''Looking up email `'' @ isoEmail_unwrap email @ ''`'') w))),
                 [Call_log (''Looking up email `'' @ isoEmail_unwrap email @ ''`''),
                  Call_log ''Result: {"_tag":"None"}''])\<close>
    if ne: "isoEmail_unwrap email \<noteq> ''ekent@mercury.com''"
  proof -
    from ne have miss: "RR_lookup (isoEmail_unwrap email) HardcodedUserDb = None"
      by (simp add: RR_lookup_def HardcodedUserDb_def)
    from Hardcoded_getUserByEmail_resolving [OF assms, of email _ w] JSON_None miss
    show ?thesis by simp
  qed
  from present absent show ?thesis by blast
qed

theorem hardcoded_user_lookup_witness:
  \<open>(\<forall>m v. fst (LoggingService_log ConsoleLoggingProvider m v) = Resolved ())
   \<and> isoEmail_unwrap (isoEmail_wrap ''unknown@mercury.com'') \<noteq> ''ekent@mercury.com''
   \<and> (Hardcoded_getUserByEmail (isoEmail_wrap ''ekent@mercury.com'') ConsoleLoggingProvider []
        :: (unit + User option) promise \<times> string list \<times> call list)
       = (Resolved (Inr (Some \<lparr>firstName = ''Ethan'', lastName = ''Kent'',
                                User_id = isoUserId_wrap ''a2a9a967-10bb-43b9-8230-99ae3a3d161f'',
                                User_email = isoEmail_wrap ''ekent@mercury.com''\<rparr>)),
          [''Looking up email `ekent@mercury.com`'',
           ''Result: {"_tag":"Some","value":{"firstName":"Ethan","lastName":"Kent","id":"a2a9a967-10bb-43b9-8230-99ae3a3d161f","email":"ekent@mercury.com"}}''],
          [Call_log ''Looking up email `ekent@mercury.com`'',
           Call_log ''Result: {"_tag":"Some","value":{"firstName":"Ethan","lastName":"Kent","id":"a2a9a967-10bb-43b9-8230-99ae3a3d161f","email":"ekent@mercury.com"}}''])
   \<and> (Hardcoded_getUserByEmail (isoEmail_wrap ''unknown@mercury.com'') ConsoleLoggingProvider []
        :: (unit + User option) promise \<times> string list \<times> call list)
       = (Resolved (Inr None),
          [''Looking up email `unknown@mercury.com`'', ''Result: {"_tag":"None"}''],
          [Call_log ''Looking up email `unknown@mercury.com`'', Call_log ''Result: {"_tag":"None"}''])\<close>
proof -
  have h: "\<And>m v. fst (LoggingService_log ConsoleLoggingProvider m v) = Resolved ()"
    by (rule ConsoleLoggingProvider_resolves)
  have ne: "isoEmail_unwrap (isoEmail_wrap ''unknown@mercury.com'') \<noteq> ''ekent@mercury.com''"
    by (simp add: isoEmail_wrap_def)
  from hardcoded_user_lookup [OF h, where 'e = unit and w = "[]"
      and email = "isoEmail_wrap ''unknown@mercury.com''"] h ne
  show ?thesis
    by (simp add: isoEmail_wrap_def ConsoleLoggingProvider_def createLoggingService_def)
qed

text \<open>
  Claim C9. The \<open>Email\<close> codec validates nothing beyond being a string: decoding any
  string succeeds with that string wrapped, unwrapping a wrapped string returns it, and
  a value decodes exactly when it is a string.
\<close>

theorem Email_is_any_string:
  "Email_decode (JStr s) = Inr (isoEmail_wrap s)
   \<and> isoEmail_unwrap (isoEmail_wrap s) = s
   \<and> (\<exists>e. Email_decode u = Inr e) = (typeof u = ''string'')"
  by (cases u)
    (simp_all add: Email_decode_def Email_validate_def t_string_validate_def isoEmail_wrap_def)

theorem Email_is_any_string_witness:
  "Email_decode (JStr ''not an email'') = Inr (isoEmail_wrap ''not an email'')
   \<and> isoEmail_unwrap (isoEmail_wrap ''not an email'') = ''not an email''
   \<and> (\<exists>e. Email_decode (JStr []) = Inr e)"
  using Email_is_any_string [of "''not an email''" "JStr []"]
  by simp

text \<open>
  Claim C10. For every user id and world, \<open>getAccountByOwnerId\<close> of the hardcoded account
  provider resolves to a success and leaves the world as it was: to the present
  hardcoded account exactly when the unwrapped id is the one key of the hardcoded
  record, and to an absent account otherwise. It never resolves to a failure and
  never rejects.
\<close>

theorem HardcodedAccountProvider_total:
  "AccountService_getAccountByOwnerId HardcodedAccountProvider owner w
     = (Resolved (Inr (if isoUserId_unwrap owner = ''a2a9a967-10bb-43b9-8230-99ae3a3d161f''
                       then Some \<lparr>accountId = isoAccountId_wrap ''69bdcc3d-95df-4497-a6a7-c529e1b010d6'',
                                  ownerId = isoUserId_wrap ''a2a9a967-10bb-43b9-8230-99ae3a3d161f''\<rparr>
                       else None)), w)"
  by (simp add: HardcodedAccountProvider_def createAccountService_def TE_of_def RR_lookup_def
      HardcodedAccountDb_def)

theorem HardcodedAccountProvider_total_witness:
  "AccountService_getAccountByOwnerId (HardcodedAccountProvider :: (unit, unit) AccountService)
     (isoUserId_wrap ''a2a9a967-10bb-43b9-8230-99ae3a3d161f'') ()
     = (Resolved (Inr (Some \<lparr>accountId = isoAccountId_wrap ''69bdcc3d-95df-4497-a6a7-c529e1b010d6'',
                              ownerId = isoUserId_wrap ''a2a9a967-10bb-43b9-8230-99ae3a3d161f''\<rparr>)), ())
   \<and> AccountService_getAccountByOwnerId (HardcodedAccountProvider :: (unit, unit) AccountService)
       (isoUserId_wrap ''testUserId1'') ()
     = (Resolved (Inr None), ())"
  using HardcodedAccountProvider_total [of "isoUserId_wrap ''a2a9a967-10bb-43b9-8230-99ae3a3d161f''" "()"]
    HardcodedAccountProvider_total [of "isoUserId_wrap ''testUserId1''" "()"]
  by (simp add: isoUserId_wrap_def)


end
